theory Spec2Isabelle
  imports Main
begin

section \<open>JavaScript strings\<close>

text \<open>
  A JavaScript string is a sequence of UTF-16 code units; each code unit is modelled by
  its numeric value, so \<open>charCodeAt\<close> is a list lookup. \<open>str\<close> turns an ASCII literal
  into such a sequence: \<open>str ''cd ''\<close> is the source's \<^verbatim>\<open>'cd '\<close>.
\<close>

type_synonym jstring = "nat list"

definition str :: "string \<Rightarrow> jstring" where
  "str cs = map of_char cs"

text \<open>\<^verbatim>\<open>'\r\n'\<close>, \<^verbatim>\<open>'\b \b'\<close> and the two-character names \<^verbatim>\<open>'.'\<close>, \<^verbatim>\<open>'..'\<close>.\<close>

definition CRLF :: jstring where
  "CRLF = [13, 10]"

definition backspace_erase :: jstring where
  "backspace_erase = [8, 32, 8]"

definition dot :: jstring where
  "dot = [46]"

definition dotdot :: jstring where
  "dotdot = [46, 46]"

text \<open>\<^verbatim>\<open>data.charCodeAt(0)\<close>: \<open>None\<close> is the NaN of an empty string, which fails every
  comparison of \<open>handleInput\<close>.\<close>

definition charCodeAt0 :: "jstring \<Rightarrow> nat option" where
  "charCodeAt0 s = (case s of [] \<Rightarrow> None | c # _ \<Rightarrow> Some c)"

text \<open>\<^verbatim>\<open>s.startsWith(p)\<close>, \<^verbatim>\<open>s.substring(n)\<close> and \<^verbatim>\<open>s.slice(n)\<close> for \<open>n \<ge> 0\<close> (both give
  the empty string when \<open>n\<close> is beyond the end), and \<^verbatim>\<open>s.slice(0, -1)\<close>.\<close>

definition startsWith :: "jstring \<Rightarrow> jstring \<Rightarrow> bool" where
  "startsWith s p = (take (length p) s = p)"

definition substring :: "nat \<Rightarrow> jstring \<Rightarrow> jstring" where
  "substring n s = drop n s"

definition slice_from :: "nat \<Rightarrow> jstring \<Rightarrow> jstring" where
  "slice_from n s = drop n s"

definition slice_drop_last :: "jstring \<Rightarrow> jstring" where
  "slice_drop_last s = butlast s"

text \<open>
  \<^verbatim>\<open>String.prototype.trim\<close> strips the ECMAScript WhiteSpace and LineTerminator code
  points from both ends: TAB, LF, VT, FF, CR, SP, NBSP, U+1680, U+2000..U+200A, U+2028,
  U+2029, U+202F, U+205F, U+3000 and U+FEFF.
\<close>

definition is_js_whitespace :: "nat \<Rightarrow> bool" where
  "is_js_whitespace c =
     (c = 9 \<or> c = 10 \<or> c = 11 \<or> c = 12 \<or> c = 13 \<or> c = 32 \<or> c = 160 \<or> c = 5760
      \<or> (8192 \<le> c \<and> c \<le> 8202)
      \<or> c = 8232 \<or> c = 8233 \<or> c = 8239 \<or> c = 8287 \<or> c = 12288 \<or> c = 65279)"

definition trim :: "jstring \<Rightarrow> jstring" where
  "trim s = rev (dropWhile is_js_whitespace (rev (dropWhile is_js_whitespace s)))"

section \<open>The path module (POSIX flavour)\<close>

text \<open>
  \<open>changeDirectory\<close> calls \<^verbatim>\<open>path.isAbsolute\<close>, \<^verbatim>\<open>path.join\<close> and \<^verbatim>\<open>path.resolve\<close> of
  Node.js. They are library functions, not code of this repository; they are modelled
  here as Node's POSIX implementation computes them, segment by segment: the path is cut
  at every \<^verbatim>\<open>'/'\<close> (code 47), empty and \<^verbatim>\<open>'.'\<close> segments are dropped, and \<^verbatim>\<open>'..'\<close> removes
  the segment before it, or is kept when there is none and the path is relative. No
  function of this section reads the file system.
\<close>

definition path_isAbsolute :: "jstring \<Rightarrow> bool" where
  "path_isAbsolute p = (case p of [] \<Rightarrow> False | c # _ \<Rightarrow> c = 47)"

fun split_slash :: "jstring \<Rightarrow> jstring list" where
  "split_slash [] = [[]]"
| "split_slash (c # cs) =
     (if c = 47 then [] # split_slash cs
      else (case split_slash cs of [] \<Rightarrow> [[c]] | seg # segs \<Rightarrow> (c # seg) # segs))"

fun join_slash :: "jstring list \<Rightarrow> jstring" where
  "join_slash [] = []"
| "join_slash [seg] = seg"
| "join_slash (seg # segs) = seg @ 47 # join_slash segs"

fun normalize_segments :: "bool \<Rightarrow> jstring list \<Rightarrow> jstring list \<Rightarrow> jstring list" where
  "normalize_segments allowAboveRoot res [] = res"
| "normalize_segments allowAboveRoot res (seg # segs) =
     normalize_segments allowAboveRoot
       (if seg = [] \<or> seg = dot then res
        else if seg = dotdot then
          (if res \<noteq> [] \<and> last res \<noteq> dotdot then butlast res
           else if allowAboveRoot then res @ [dotdot]
           else res)
        else res @ [seg])
       segs"

definition normalizeString :: "jstring \<Rightarrow> bool \<Rightarrow> jstring" where
  "normalizeString p allowAboveRoot =
     join_slash (normalize_segments allowAboveRoot [] (split_slash p))"

definition path_normalize :: "jstring \<Rightarrow> jstring" where
  "path_normalize p =
     (if p = [] then dot
      else
        let isAbsolute = (hd p = 47);
            trailingSeparator = (last p = 47);
            n = normalizeString p (\<not> isAbsolute)
        in if n = [] then (if isAbsolute then [47] else if trailingSeparator then dot @ [47] else dot)
           else (if isAbsolute then [47] else []) @ n @ (if trailingSeparator then [47] else []))"

text \<open>\<^verbatim>\<open>path.join(a, b)\<close>: the non-empty arguments joined by \<^verbatim>\<open>'/'\<close>, then normalized.\<close>

definition path_join :: "jstring \<Rightarrow> jstring \<Rightarrow> jstring" where
  "path_join a b =
     (if a = [] \<and> b = [] then dot
      else if a = [] then path_normalize b
      else if b = [] then path_normalize a
      else path_normalize (a @ 47 # b))"

section \<open>The process environment\<close>

text \<open>
  What the view reads from outside itself: the environment variables, \<^verbatim>\<open>os.homedir()\<close>
  (which throws when no home directory can be found), \<^verbatim>\<open>process.cwd()\<close> (read by
  \<^verbatim>\<open>path.resolve\<close> for a relative argument), and the two file system calls of
  \<open>changeDirectory\<close>: \<^verbatim>\<open>fs.existsSync\<close>, which never throws, and
  \<^verbatim>\<open>fs.statSync(p).isDirectory()\<close>, which throws when the path cannot be examined.
  An exception is a value \<open>Error message\<close> on the left of a sum.

  The last field is \<^verbatim>\<open>child_process.exec\<close>. The call either starts the process and
  returns, or throws before anything is started (Node does so for a command that
  contains a NUL character and when the \<^verbatim>\<open>cwd\<close> option is not a directory):
  \<open>exec_sync_error\<close> gives the exception, if any, for the command and the \<^verbatim>\<open>cwd\<close> and
  \<^verbatim>\<open>env\<close> options of the call.
\<close>

datatype error = Error jstring

record exec_request =
  req_command :: jstring
  req_cwd :: jstring
  req_env :: "jstring \<rightharpoonup> jstring"

record env =
  process_env :: "jstring \<rightharpoonup> jstring"
  os_homedir :: "error + jstring"
  process_cwd :: jstring
  existsSync :: "jstring \<Rightarrow> bool"
  statSync_isDirectory :: "jstring \<Rightarrow> error + bool"
  exec_sync_error :: "exec_request \<Rightarrow> error option"

text \<open>\<^verbatim>\<open>path.resolve(p)\<close> with one argument: \<open>p\<close> itself when it is absolute, otherwise
  \<^verbatim>\<open>process.cwd()\<close> in front of it; then the segments are normalized.\<close>

definition path_resolve :: "env \<Rightarrow> jstring \<Rightarrow> jstring" where
  "path_resolve e p =
     (let (resolvedPath, resolvedAbsolute) =
            (if path_isAbsolute p then (p @ [47], True)
             else
               let rp = (if p = [] then [] else p @ [47])
               in if process_cwd e = [] then (rp, False)
                  else (process_cwd e @ 47 # rp, path_isAbsolute (process_cwd e)));
          n = normalizeString resolvedPath (\<not> resolvedAbsolute)
      in if resolvedAbsolute then 47 # n
         else if n \<noteq> [] then n else dot)"

section \<open>The terminal view\<close>

text \<open>
  The xterm.js terminal is a collaborator that the view only calls; the model keeps the
  calls, in order. \<open>SetTimeout_scrollToTop ms\<close> is the deferred scroll that the
  \<^verbatim>\<open>clear\<close> built-in and \<open>onOpen\<close> schedule.
\<close>

datatype terminal_call =
    Write jstring
  | Writeln jstring
  | Clear
  | ScrollToBottom
  | SetTimeout_scrollToTop nat

text \<open>Of the plugin settings the view's command handling reads \<open>startupDirectory\<close> only;
  the other fields configure the xterm.js widget.\<close>

record TerminalPluginSettings =
  startupDirectory :: jstring

text \<open>The fields of \<^verbatim>\<open>class TerminalView\<close> that the command handling uses, the calls made
  on \<^verbatim>\<open>this.terminal\<close> so far, and the \<^verbatim>\<open>exec\<close> calls whose callback has not run.\<close>

record TerminalView =
  currentLine :: jstring
  cwd :: jstring
  terminal :: "terminal_call list"
  outstanding :: "exec_request list"

text \<open>
  \<open>executeCommand\<close> and \<open>handleInput\<close> have no \<^verbatim>\<open>try\<close> around the call of \<^verbatim>\<open>exec\<close>, so
  an exception of that call leaves them at once. Their result is therefore either
  \<open>Returned s\<close>, the view after a normal return, or \<open>Threw err s\<close>, the exception together
  with the view as it is when the exception leaves the method: the statements after the
  call have not run.
\<close>

datatype outcome =
    Returned TerminalView
  | Threw error TerminalView

fun state_of :: "outcome \<Rightarrow> TerminalView" where
  "state_of (Returned s) = s"
| "state_of (Threw err s) = s"

text \<open>\<^verbatim>\<open>v || rest\<close> for an environment variable \<open>v\<close>: an unset variable and the empty string are
  falsy.\<close>

definition js_or :: "jstring option \<Rightarrow> error + jstring \<Rightarrow> error + jstring" where
  "js_or v rest = (case v of None \<Rightarrow> rest | Some s \<Rightarrow> if s = [] then rest else Inr s)"

text \<open>\<^verbatim>\<open>process.env.HOME || process.env.USERPROFILE || os.homedir()\<close>\<close>

definition resolved_home :: "env \<Rightarrow> error + jstring" where
  "resolved_home e =
     js_or (process_env e (str ''HOME''))
       (js_or (process_env e (str ''USERPROFILE'')) (os_homedir e))"

definition TerminalView_constructor :: "env \<Rightarrow> TerminalPluginSettings \<Rightarrow> error + TerminalView" where
  "TerminalView_constructor e settings =
     (if startupDirectory settings \<noteq> [] \<and> trim (startupDirectory settings) \<noteq> []
      then Inr \<lparr>currentLine = [], cwd = trim (startupDirectory settings),
                terminal = [], outstanding = []\<rparr>
      else (case resolved_home e of
              Inl err \<Rightarrow> Inl err
            | Inr home \<Rightarrow> Inr \<lparr>currentLine = [], cwd = home, terminal = [], outstanding = []\<rparr>))"

definition terminal_do :: "terminal_call \<Rightarrow> TerminalView \<Rightarrow> TerminalView" where
  "terminal_do c s = s\<lparr>terminal := terminal s @ [c]\<rparr>"

text \<open>The two ANSI renderings: green for the directory of the prompt, red for errors.\<close>

definition green :: "jstring \<Rightarrow> jstring" where
  "green t = 27 # str ''[32m'' @ t @ 27 # str ''[0m''"

definition red :: "jstring \<Rightarrow> jstring" where
  "red t = 27 # str ''[31m'' @ t @ 27 # str ''[0m''"

definition prompt_text :: "bool \<Rightarrow> jstring \<Rightarrow> jstring" where
  "prompt_text newLine dir = (if newLine then CRLF else []) @ green dir @ str '' $ ''"

definition writePrompt :: "bool \<Rightarrow> bool \<Rightarrow> TerminalView \<Rightarrow> TerminalView" where
  "writePrompt newLine scrollToBottom s =
     (let s1 = terminal_do (Write (prompt_text newLine (cwd s))) s
      in if scrollToBottom then terminal_do ScrollToBottom s1 else s1)"

text \<open>The part of \<open>onOpen\<close> that talks to the terminal: clear, the first prompt without a
  leading line break, and the deferred scroll to the top.\<close>

definition onOpen :: "TerminalView \<Rightarrow> TerminalView" where
  "onOpen s = terminal_do (SetTimeout_scrollToTop 50) (writePrompt False False (terminal_do Clear s))"

text \<open>The first half of the \<^verbatim>\<open>try\<close> block of \<open>changeDirectory\<close>: the target path, or the
  exception of \<^verbatim>\<open>os.homedir()\<close>.\<close>

definition changeDirectory_target :: "env \<Rightarrow> jstring \<Rightarrow> jstring \<Rightarrow> error + jstring" where
  "changeDirectory_target e dir newPath =
     (case
        (if newPath = str ''~'' then os_homedir e
         else if startsWith newPath (str ''~/'') then
           (case os_homedir e of
              Inl err \<Rightarrow> Inl err
            | Inr home \<Rightarrow> Inr (path_join home (slice_from 2 newPath)))
         else if \<not> path_isAbsolute newPath then Inr (path_join dir newPath)
         else Inr newPath)
      of Inl err \<Rightarrow> Inl err
       | Inr targetPath \<Rightarrow> Inr (path_resolve e targetPath))"

definition cd_missing :: "jstring \<Rightarrow> terminal_call" where
  "cd_missing newPath = Writeln (red (str ''cd: no such file or directory: '' @ newPath))"

definition cd_exception :: "error \<Rightarrow> terminal_call" where
  "cd_exception err = (case err of Error message \<Rightarrow> Writeln (red (str ''cd: '' @ message)))"

definition changeDirectory :: "env \<Rightarrow> jstring \<Rightarrow> TerminalView \<Rightarrow> TerminalView" where
  "changeDirectory e newPath s =
     writePrompt True True
       (case changeDirectory_target e (cwd s) newPath of
          Inl err \<Rightarrow> terminal_do (cd_exception err) s
        | Inr targetPath \<Rightarrow>
            if existsSync e targetPath then
              (case statSync_isDirectory e targetPath of
                 Inl err \<Rightarrow> terminal_do (cd_exception err) s
               | Inr isDir \<Rightarrow>
                   if isDir then s\<lparr>cwd := targetPath\<rparr>
                   else terminal_do (cd_missing newPath) s)
            else terminal_do (cd_missing newPath) s)"

text \<open>\<^verbatim>\<open>exec(command, {cwd: this.cwd, env: process.env}, callback)\<close>: when the call does not
  throw, the process is started and the call returns; the callback runs later
  (\<open>exec_callback\<close>). When it throws, nothing is started and the callback never runs.\<close>

definition exec :: "env \<Rightarrow> jstring \<Rightarrow> TerminalView \<Rightarrow> outcome" where
  "exec e command s =
     (let request = \<lparr>req_command = command, req_cwd = cwd s, req_env = process_env e\<rparr>
      in case exec_sync_error e request of
           Some err \<Rightarrow> Threw err s
         | None \<Rightarrow> Returned (s\<lparr>outstanding := outstanding s @ [request]\<rparr>))"

definition executeCommand :: "env \<Rightarrow> jstring \<Rightarrow> TerminalView \<Rightarrow> outcome" where
  "executeCommand e command s =
     (if startsWith command (str ''cd '')
        then Returned (changeDirectory e (trim (substring 3 command)) s)
      else if command = str ''clear'' \<or> command = str ''cls'' then
        Returned (terminal_do (SetTimeout_scrollToTop 10)
                    (writePrompt False False (terminal_do Clear s)))
      else if command = str ''pwd'' then
        Returned (writePrompt True True (terminal_do (Writeln (cwd s)) s))
      else exec e command s)"

definition exec_callback :: "error option \<Rightarrow> jstring \<Rightarrow> jstring \<Rightarrow> TerminalView \<Rightarrow> TerminalView" where
  "exec_callback err stdout stderr s =
     (let s1 = (if stdout \<noteq> [] then terminal_do (Write stdout) s else s);
          s2 = (if stderr \<noteq> [] then terminal_do (Write (red stderr)) s1 else s1);
          s3 = (case err of
                  None \<Rightarrow> s2
                | Some (Error message) \<Rightarrow>
                    if stderr = [] then terminal_do (Writeln (red message)) s2 else s2)
      in writePrompt True True s3)"

definition handleInput :: "env \<Rightarrow> jstring \<Rightarrow> TerminalView \<Rightarrow> outcome" where
  "handleInput e data s =
     (case charCodeAt0 data of
        None \<Rightarrow> Returned s
      | Some code \<Rightarrow>
          if code = 13 then
            (let s1 = terminal_do (Write CRLF) s
             in if trim (currentLine s1) \<noteq> [] then
                  (case executeCommand e (trim (currentLine s1)) s1 of
                     Threw err s2 \<Rightarrow> Threw err s2
                   | Returned s2 \<Rightarrow> Returned (s2\<lparr>currentLine := []\<rparr>))
                else Returned ((writePrompt True True s1)\<lparr>currentLine := []\<rparr>))
          else if code = 127 then
            (if length (currentLine s) > 0
             then Returned (terminal_do (Write backspace_erase)
                    (s\<lparr>currentLine := slice_drop_last (currentLine s)\<rparr>))
             else Returned s)
          else if code = 3 then
            Returned (writePrompt True True
              ((terminal_do (Write (str ''^C'' @ CRLF)) s)\<lparr>currentLine := []\<rparr>))
          else if code \<ge> 32 then
            Returned (terminal_do (Write data) (s\<lparr>currentLine := currentLine s @ data\<rparr>))
          else Returned s)"

section \<open>Events and runs\<close>

text \<open>
  The view reacts to two kinds of events: a chunk of input from the terminal
  (\<^verbatim>\<open>onData\<close>), and the completion of an outstanding \<^verbatim>\<open>exec\<close>, identified by its position
  among the outstanding calls, with the arguments of its callback. Each event comes with
  the environment as it is when the event is handled. An exception that leaves
  \<open>handleInput\<close> goes to the terminal's event emitter; the view stays as the exception
  left it and handles the next event from there.
\<close>

datatype event =
    Input jstring
  | ExecComplete nat "error option" jstring jstring

definition step :: "env \<Rightarrow> event \<Rightarrow> TerminalView \<Rightarrow> TerminalView" where
  "step e ev s =
     (case ev of
        Input data \<Rightarrow> state_of (handleInput e data s)
      | ExecComplete i err stdout stderr \<Rightarrow>
          if i < length (outstanding s)
          then exec_callback err stdout stderr
                 (s\<lparr>outstanding := take i (outstanding s) @ drop (Suc i) (outstanding s)\<rparr>)
          else s)"

fun run :: "(env \<times> event) list \<Rightarrow> TerminalView \<Rightarrow> TerminalView" where
  "run [] s = s"
| "run ((e, ev) # evs) s = run evs (step e ev s)"

text \<open>The calls made on the terminal between two states.\<close>

definition new_calls :: "TerminalView \<Rightarrow> TerminalView \<Rightarrow> terminal_call list" where
  "new_calls s s' = drop (length (terminal s)) (terminal s')"

section \<open>Predicates used by the properties\<close>

text \<open>A path is absolute and normalized when it is \<^verbatim>\<open>'/'\<close>, or \<^verbatim>\<open>'/'\<close> followed by segments
  separated by single slashes, none of them empty, \<^verbatim>\<open>'.'\<close> or \<^verbatim>\<open>'..'\<close>.\<close>

definition good_segment :: "jstring \<Rightarrow> bool" where
  "good_segment seg = (seg \<noteq> [] \<and> seg \<noteq> dot \<and> seg \<noteq> dotdot)"

definition is_normalized_absolute :: "jstring \<Rightarrow> bool" where
  "is_normalized_absolute p =
     (path_isAbsolute p \<and> (p = [47] \<or> (\<forall>seg \<in> set (split_slash (tl p)). good_segment seg)))"

text \<open>In environment \<open>e\<close> the path is absolute, normalized, exists and is a directory.\<close>

definition cwd_validated :: "env \<Rightarrow> jstring \<Rightarrow> bool" where
  "cwd_validated e p =
     (is_normalized_absolute p \<and> existsSync e p \<and> statSync_isDirectory e p = Inr True)"

text \<open>The last two calls on the terminal are those of \<open>writePrompt()\<close> for the current
  working directory.\<close>

definition prompt_rearmed :: "TerminalView \<Rightarrow> bool" where
  "prompt_rearmed s =
     (take 2 (rev (terminal s)) = [ScrollToBottom, Write (prompt_text True (cwd s))])"

section \<open>A concrete environment\<close>

text \<open>A small file system with the directories \<^verbatim>\<open>/\<close>, \<^verbatim>\<open>/home\<close>, \<^verbatim>\<open>/home/u\<close> and \<^verbatim>\<open>/tmp\<close>,
  the regular file \<^verbatim>\<open>/home/u/notes.md\<close>, and a directory \<^verbatim>\<open>/root\<close> that cannot be
  examined; \<^verbatim>\<open>HOME\<close> is \<^verbatim>\<open>/home/u\<close>. \<^verbatim>\<open>exec\<close> throws for a command with a NUL character
  and when its \<^verbatim>\<open>cwd\<close> is the regular file.\<close>

definition demo_dirs :: "jstring list" where
  "demo_dirs = [str ''/'', str ''/home'', str ''/home/u'', str ''/tmp'']"

definition demo_env :: env where
  "demo_env =
     \<lparr>process_env = [str ''HOME'' \<mapsto> str ''/home/u''],
      os_homedir = Inr (str ''/home/u''),
      process_cwd = str ''/opt/app'',
      existsSync = (\<lambda>p. p \<in> set (str ''/home/u/notes.md'' # str ''/root'' # demo_dirs)),
      statSync_isDirectory =
        (\<lambda>p. if p = str ''/root'' then Inl (Error (str ''EACCES: permission denied''))
             else Inr (p \<in> set demo_dirs)),
      exec_sync_error =
        (\<lambda>request.
           if 0 \<in> set (req_command request)
             then Some (Error (str ''The argument must be a string without null bytes''))
           else if req_cwd request = str ''/home/u/notes.md''
             then Some (Error (str ''spawn ENOTDIR''))
           else None)\<rparr>"

text \<open>The same machine when no home directory can be determined.\<close>

definition homeless_env :: env where
  "homeless_env =
     demo_env\<lparr>process_env := Map.empty,
               os_homedir := Inl (Error (str ''ENOENT: no home directory''))\<rparr>"

definition demo_view :: TerminalView where
  "demo_view = \<lparr>currentLine = [], cwd = str ''/home/u'', terminal = [], outstanding = []\<rparr>"

text \<open>The same view with one external command already outstanding and \<^verbatim>\<open>ps\<close> typed but
  not yet submitted.\<close>

definition busy_view :: TerminalView where
  "busy_view =
     demo_view\<lparr>currentLine := str ''ps'',
                outstanding := [\<lparr>req_command = str ''ls'', req_cwd = str ''/home/u'',
                                 req_env = process_env demo_env\<rparr>]\<rparr>"

text \<open>The view that the constructor builds for the startup directory
  \<^verbatim>\<open>/home/u/notes.md\<close>, a regular file, and that view once it is open and \<^verbatim>\<open>ls\<close> has
  been typed.\<close>

definition file_start :: TerminalView where
  "file_start =
     \<lparr>currentLine = [], cwd = str ''/home/u/notes.md'', terminal = [], outstanding = []\<rparr>"

definition file_view :: TerminalView where
  "file_view =
     \<lparr>currentLine = str ''ls'', cwd = str ''/home/u/notes.md'',
      terminal = [Clear, Write (prompt_text False (str ''/home/u/notes.md'')),
                  SetTimeout_scrollToTop 50, Write (str ''l''), Write (str ''s'')],
      outstanding = []\<rparr>"

section \<open>Outstanding executions\<close>

text \<open>\<open>idle s\<close> is \<open>s\<close> with no execution outstanding; \<open>carry s s'\<close> puts the executions
  outstanding in \<open>s\<close> in front of those of \<open>s'\<close>, and \<open>carry_outcome\<close> does so in the view
  of an outcome.\<close>

definition idle :: "TerminalView \<Rightarrow> TerminalView" where
  "idle s = s\<lparr>outstanding := []\<rparr>"

definition carry :: "TerminalView \<Rightarrow> TerminalView \<Rightarrow> TerminalView" where
  "carry s s' = s'\<lparr>outstanding := outstanding s @ outstanding s'\<rparr>"

fun carry_outcome :: "TerminalView \<Rightarrow> outcome \<Rightarrow> outcome" where
  "carry_outcome s (Returned s') = Returned (carry s s')"
| "carry_outcome s (Threw err s') = Threw err (carry s s')"

section \<open>When the working directory was set\<close>

text \<open>The environment of the last event of a run that changed \<open>cwd\<close>; \<open>r\<close> is the answer
  for the events before the run (\<open>None\<close>: not changed since construction).\<close>

fun cwd_set_by :: "(env \<times> event) list \<Rightarrow> TerminalView \<Rightarrow> env option \<Rightarrow> env option" where
  "cwd_set_by [] s r = r"
| "cwd_set_by ((e, ev) # evs) s r =
     cwd_set_by evs (step e ev s) (if cwd (step e ev s) \<noteq> cwd s then Some e else r)"

section \<open>Facts about the path functions\<close>

lemma split_slash_not_Nil: "split_slash p \<noteq> []"
  by (induction p) (auto split: list.splits)

lemma split_slash_no_slash: "seg \<in> set (split_slash p) \<Longrightarrow> 47 \<notin> set seg"
  by (induction p arbitrary: seg) (auto split: list.splits if_splits)

lemma split_slash_plain: "47 \<notin> set seg \<Longrightarrow> split_slash seg = [seg]"
  by (induction seg) auto

lemma split_slash_append:
  "47 \<notin> set seg \<Longrightarrow> split_slash (seg @ 47 # rest) = seg # split_slash rest"
  by (induction seg) auto

lemma split_join_slash:
  "segs \<noteq> [] \<Longrightarrow> \<forall>seg \<in> set segs. 47 \<notin> set seg \<Longrightarrow> split_slash (join_slash segs) = segs"
  by (induction segs rule: join_slash.induct) (auto simp: split_slash_plain split_slash_append)

text \<open>Without \<open>allowAboveRoot\<close> the segment stack never holds an empty, \<^verbatim>\<open>'.'\<close> or \<^verbatim>\<open>'..'\<close>
  segment.\<close>

lemma normalize_segments_good:
  "\<forall>seg \<in> set res. good_segment seg \<and> 47 \<notin> set seg \<Longrightarrow>
   \<forall>seg \<in> set segs. 47 \<notin> set seg \<Longrightarrow>
   seg \<in> set (normalize_segments False res segs) \<Longrightarrow> good_segment seg \<and> 47 \<notin> set seg"
proof (induction segs arbitrary: res)
  case Nil
  then show ?case by simp
next
  case (Cons x xs)
  let ?res' = "(if x = [] \<or> x = dot then res
        else if x = dotdot then
          (if res \<noteq> [] \<and> last res \<noteq> dotdot then butlast res
           else if False then res @ [dotdot]
           else res)
        else res @ [x])"
  have "\<forall>seg \<in> set ?res'. good_segment seg \<and> 47 \<notin> set seg"
    using Cons.prems(1,2) by (auto simp: good_segment_def dest: in_set_butlastD)
  moreover have "\<forall>seg \<in> set xs. 47 \<notin> set seg"
    using Cons.prems(2) by simp
  moreover have "seg \<in> set (normalize_segments False ?res' xs)"
    using Cons.prems(3) by simp
  ultimately show ?case by (rule Cons.IH)
qed

lemma normalized_absolute_join:
  assumes "\<forall>seg \<in> set segs. good_segment seg \<and> 47 \<notin> set seg"
  shows "is_normalized_absolute (47 # join_slash segs)"
proof (cases "segs = []")
  case True
  then show ?thesis by (simp add: is_normalized_absolute_def path_isAbsolute_def)
next
  case False
  with assms have "split_slash (join_slash segs) = segs"
    by (simp add: split_join_slash)
  with assms show ?thesis by (simp add: is_normalized_absolute_def path_isAbsolute_def)
qed

lemma normalizeString_absolute: "is_normalized_absolute (47 # normalizeString p False)"
  unfolding normalizeString_def
  by (rule normalized_absolute_join)
    (use normalize_segments_good[of "[]" "split_slash p"] split_slash_no_slash in auto)

lemma path_resolve_absolute:
  "path_isAbsolute p \<or> path_isAbsolute (process_cwd e) \<Longrightarrow>
   is_normalized_absolute (path_resolve e p)"
  by (auto simp: path_resolve_def Let_def normalizeString_absolute path_isAbsolute_def
      split: list.splits)

section \<open>Facts about strings and the terminal\<close>

lemma str_simps: "str [] = []" "str (c # cs) = of_char c # str cs"
  by (simp_all add: str_def)

lemma writePrompt_eq:
  "writePrompt True True s =
     s\<lparr>terminal := terminal s @ [Write (prompt_text True (cwd s)), ScrollToBottom]\<rparr>"
  "writePrompt False False s = s\<lparr>terminal := terminal s @ [Write (prompt_text False (cwd s))]\<rparr>"
  by (simp_all add: writePrompt_def terminal_do_def)

lemma dropWhile_rest: "(\<forall>x \<in> set (dropWhile P xs). P x) = (dropWhile P xs = [])"
proof
  assume all: "\<forall>x \<in> set (dropWhile P xs). P x"
  show "dropWhile P xs = []"
  proof (rule ccontr)
    assume ne: "dropWhile P xs \<noteq> []"
    then have "\<not> P (hd (dropWhile P xs))" by (rule hd_dropWhile)
    moreover have "hd (dropWhile P xs) \<in> set (dropWhile P xs)" using ne by simp
    ultimately show False using all by blast
  qed
qed (auto dest: set_dropWhileD)

lemma trim_eq_Nil: "(trim s = []) = (\<forall>c \<in> set s. is_js_whitespace c)"
  by (simp add: trim_def dropWhile_eq_Nil_conv dropWhile_rest)

lemma trim_last: "trim s \<noteq> [] \<Longrightarrow> \<not> is_js_whitespace (last (trim s))"
  unfolding trim_def
  using hd_dropWhile[of is_js_whitespace "rev (dropWhile is_js_whitespace s)"]
  by (simp add: last_rev)

text \<open>A trimmed line that begins with \<^verbatim>\<open>'cd '\<close> ends in a character that is not white
  space, and that character lies behind the prefix.\<close>

lemma cd_remainder_not_blank:
  assumes "startsWith (trim line) (str ''cd '')"
  shows "trim (substring 3 (trim line)) \<noteq> []"
proof
  let ?c = "trim line"
  assume blank: "trim (substring 3 ?c) = []"
  from assms have pre: "take 3 ?c = [99, 100, 32]"
    by (simp add: startsWith_def str_simps numeral_3_eq_3)
  then have ne: "?c \<noteq> []" by auto
  have split: "?c = take 3 ?c @ drop 3 ?c" by simp
  have "is_js_whitespace (last ?c)"
  proof (cases "drop 3 ?c = []")
    case True
    with split pre have "?c = [99, 100, 32]" by simp
    then show ?thesis by (simp add: is_js_whitespace_def)
  next
    case False
    then have "last ?c = last (drop 3 ?c)" by (simp add: last_drop)
    moreover have "last (drop 3 ?c) \<in> set (drop 3 ?c)" using False by (rule last_in_set)
    ultimately show ?thesis using blank by (simp add: trim_eq_Nil substring_def)
  qed
  with trim_last[OF ne] show False by simp
qed

section \<open>Facts about changeDirectory\<close>

text \<open>The five outcomes of \<open>changeDirectory\<close>, with the calls each makes on the terminal.\<close>

lemma changeDirectory_cases:
  "changeDirectory e newPath s =
     (case changeDirectory_target e (cwd s) newPath of
        Inl (Error message) \<Rightarrow>
          s\<lparr>terminal := terminal s @
               [Writeln (red (str ''cd: '' @ message)), Write (prompt_text True (cwd s)),
                ScrollToBottom]\<rparr>
      | Inr targetPath \<Rightarrow>
          if existsSync e targetPath then
            (case statSync_isDirectory e targetPath of
               Inl (Error message) \<Rightarrow>
                 s\<lparr>terminal := terminal s @
                      [Writeln (red (str ''cd: '' @ message)), Write (prompt_text True (cwd s)),
                       ScrollToBottom]\<rparr>
             | Inr isDir \<Rightarrow>
                 if isDir then
                   s\<lparr>cwd := targetPath,
                     terminal := terminal s @ [Write (prompt_text True targetPath), ScrollToBottom]\<rparr>
                 else
                   s\<lparr>terminal := terminal s @
                        [Writeln (red (str ''cd: no such file or directory: '' @ newPath)),
                         Write (prompt_text True (cwd s)), ScrollToBottom]\<rparr>)
          else
            s\<lparr>terminal := terminal s @
                 [Writeln (red (str ''cd: no such file or directory: '' @ newPath)),
                  Write (prompt_text True (cwd s)), ScrollToBottom]\<rparr>)"
  by (simp add: changeDirectory_def writePrompt_eq terminal_do_def cd_missing_def cd_exception_def
      split: sum.splits error.splits)

lemma tilde_not_absolute:
  "path_isAbsolute newPath \<Longrightarrow> newPath \<noteq> str ''~'' \<and> \<not> startsWith newPath (str ''~/'')"
  by (auto simp: path_isAbsolute_def startsWith_def str_simps split: list.splits)

lemma changeDirectory_target_normalized:
  assumes "path_isAbsolute (process_cwd e)"
    and "changeDirectory_target e dir newPath = Inr targetPath"
  shows "is_normalized_absolute targetPath"
  using assms
  by (auto simp: changeDirectory_target_def path_resolve_absolute split: sum.splits if_splits)

lemma path_resolve_fs:
  "path_resolve (e\<lparr>existsSync := ex, statSync_isDirectory := st\<rparr>) p = path_resolve e p"
  by (simp add: path_resolve_def)

section \<open>The working directory along a run\<close>

lemma cwd_changeDirectory:
  "path_isAbsolute (process_cwd e) \<Longrightarrow>
   cwd (changeDirectory e newPath s) = cwd s \<or> cwd_validated e (cwd (changeDirectory e newPath s))"
  by (auto simp: changeDirectory_cases cwd_validated_def changeDirectory_target_normalized
      split: sum.splits error.splits)

lemma cwd_exec: "cwd (state_of (exec e command s)) = cwd s"
  by (simp add: exec_def Let_def split: option.splits)

lemma cwd_executeCommand:
  "path_isAbsolute (process_cwd e) \<Longrightarrow>
   cwd (state_of (executeCommand e command s)) = cwd s
   \<or> cwd_validated e (cwd (state_of (executeCommand e command s)))"
  using cwd_changeDirectory[of e "trim (substring 3 command)" s]
  by (simp add: executeCommand_def writePrompt_eq terminal_do_def cwd_exec)

lemma cwd_exec_callback: "cwd (exec_callback err stdout stderr s) = cwd s"
  by (simp add: exec_callback_def writePrompt_eq terminal_do_def Let_def
      split: option.splits error.splits)

lemma cwd_handleInput:
  assumes "path_isAbsolute (process_cwd e)"
  shows "cwd (state_of (handleInput e data s)) = cwd s
       \<or> cwd_validated e (cwd (state_of (handleInput e data s)))"
proof (cases "charCodeAt0 data = Some 13 \<and> trim (currentLine s) \<noteq> []")
  case True
  let ?x = "executeCommand e (trim (currentLine s)) (terminal_do (Write CRLF) s)"
  have "cwd (state_of (handleInput e data s)) = cwd (state_of ?x)"
    using True by (cases ?x) (simp_all add: handleInput_def Let_def terminal_do_def)
  then show ?thesis
    using cwd_executeCommand[OF assms, of "trim (currentLine s)" "terminal_do (Write CRLF) s"]
    by (simp add: terminal_do_def)
next
  case False
  then show ?thesis
    by (auto simp: handleInput_def Let_def writePrompt_eq terminal_do_def split: option.splits)
qed

lemma cwd_step:
  assumes "path_isAbsolute (process_cwd e)"
  shows "cwd (step e ev s) = cwd s \<or> cwd_validated e (cwd (step e ev s))"
proof (cases ev)
  case (Input data)
  then show ?thesis
    using cwd_handleInput[OF assms, of data s] by (simp add: step_def)
next
  case (ExecComplete i err stdout stderr)
  then show ?thesis by (simp add: step_def cwd_exec_callback)
qed

lemma cwd_run:
  assumes "\<forall>(e, ev) \<in> set evs. path_isAbsolute (process_cwd e)"
    and "case r of None \<Rightarrow> cwd s = c | Some e \<Rightarrow> cwd_validated e (cwd s)"
  shows "case cwd_set_by evs s r of
           None \<Rightarrow> cwd (run evs s) = c
         | Some e \<Rightarrow> cwd_validated e (cwd (run evs s))"
  using assms
proof (induction evs arbitrary: s r)
  case Nil
  then show ?case by (auto split: option.splits)
next
  case (Cons x evs)
  obtain e ev where x: "x = (e, ev)" by (cases x)
  from Cons.prems(1) x have abs: "path_isAbsolute (process_cwd e)" by simp
  let ?r = "if cwd (step e ev s) \<noteq> cwd s then Some e else r"
  have "case ?r of None \<Rightarrow> cwd (step e ev s) = c | Some e' \<Rightarrow> cwd_validated e' (cwd (step e ev s))"
    using cwd_step[OF abs, of ev s] Cons.prems(2) by (auto split: option.splits)
  moreover have "\<forall>(e, ev) \<in> set evs. path_isAbsolute (process_cwd e)"
    using Cons.prems(1) by simp
  ultimately have "case cwd_set_by evs (step e ev s) ?r of
           None \<Rightarrow> cwd (run evs (step e ev s)) = c
         | Some e' \<Rightarrow> cwd_validated e' (cwd (run evs (step e ev s)))"
    by (rule Cons.IH[rotated])
  then show ?case unfolding x cwd_set_by.simps run.simps .
qed

section \<open>Facts about the constructor\<close>

lemma constructor_cwd:
  assumes "TerminalView_constructor e0 settings = Inr s0"
  shows "(trim (startupDirectory settings) \<noteq> [] \<longrightarrow> cwd s0 = trim (startupDirectory settings))
       \<and> (trim (startupDirectory settings) = [] \<longrightarrow> resolved_home e0 = Inr (cwd s0))"
proof -
  have "trim [] = []" by (simp add: trim_def)
  then have "trim (startupDirectory settings) \<noteq> [] \<Longrightarrow> startupDirectory settings \<noteq> []"
    by auto
  with assms show ?thesis
    by (auto simp: TerminalView_constructor_def split: if_splits sum.splits)
qed

lemma resolved_home_nonempty:
  "resolved_home e = Inr h \<Longrightarrow> os_homedir e \<noteq> Inr [] \<Longrightarrow> h \<noteq> []"
  by (auto simp: resolved_home_def js_or_def split: if_splits option.splits)

lemma validated_nonempty: "cwd_validated e p \<Longrightarrow> p \<noteq> []"
  by (auto simp: cwd_validated_def is_normalized_absolute_def path_isAbsolute_def)

section \<open>Facts about executeCommand and handleInput\<close>

lemma terminal_changeDirectory:
  "take (length (terminal s)) (terminal (changeDirectory e newPath s)) = terminal s"
  by (simp add: changeDirectory_cases split: sum.splits error.splits)

lemma terminal_executeCommand:
  "take (length (terminal s)) (terminal (state_of (executeCommand e command s))) = terminal s"
  by (simp add: executeCommand_def terminal_changeDirectory writePrompt_eq terminal_do_def
      exec_def Let_def split: option.splits)

text \<open>The Enter key: CR LF is written, then a non-blank line is executed and the pending
  line is cleared if the execution returns; a blank line only gets the prompt.\<close>

lemma handleInput_enter:
  "charCodeAt0 data = Some 13 \<Longrightarrow>
   handleInput e data s =
     (if trim (currentLine s) \<noteq> [] then
        (case executeCommand e (trim (currentLine s)) (terminal_do (Write CRLF) s) of
           Threw err s2 \<Rightarrow> Threw err s2
         | Returned s2 \<Rightarrow> Returned (s2\<lparr>currentLine := []\<rparr>))
      else Returned ((writePrompt True True (terminal_do (Write CRLF) s))\<lparr>currentLine := []\<rparr>))"
  by (simp add: handleInput_def Let_def terminal_do_def)

text \<open>No function of the view reads the outstanding executions.\<close>

lemma changeDirectory_carry:
  "changeDirectory e newPath s = carry s (changeDirectory e newPath (idle s))"
  by (simp add: changeDirectory_cases carry_def idle_def split: sum.splits error.splits)

lemma executeCommand_carry:
  "executeCommand e command s = carry_outcome s (executeCommand e command (idle s))"
proof (cases "startsWith command (str ''cd '')")
  case True
  then show ?thesis
    using changeDirectory_carry[of e "trim (substring 3 command)" s]
    by (simp add: executeCommand_def)
next
  case False
  then show ?thesis
    by (simp add: executeCommand_def writePrompt_eq terminal_do_def exec_def Let_def
        carry_def idle_def split: option.splits)
qed

lemma handleInput_carry:
  "handleInput e data s = carry_outcome s (handleInput e data (idle s))"
proof (cases "charCodeAt0 data = Some 13 \<and> trim (currentLine s) \<noteq> []")
  case True
  let ?c = "trim (currentLine s)"
  let ?x = "executeCommand e ?c (terminal_do (Write CRLF) (idle s))"
  have a: "idle (terminal_do (Write CRLF) s) = terminal_do (Write CRLF) (idle s)"
    by (simp add: idle_def terminal_do_def)
  have b: "carry_outcome (terminal_do (Write CRLF) s) x = carry_outcome s x" for x
    by (cases x) (simp_all add: carry_def terminal_do_def)
  have x: "executeCommand e ?c (terminal_do (Write CRLF) s) = carry_outcome s ?x"
    using executeCommand_carry[of e ?c "terminal_do (Write CRLF) s"]
    by (simp only: a b)
  have line: "currentLine (idle s) = currentLine s"
    by (simp add: idle_def)
  show ?thesis
    using True
    by (cases ?x) (simp_all add: handleInput_enter x line, simp_all add: carry_def)
next
  case False
  then show ?thesis
    by (auto simp: handleInput_def Let_def writePrompt_eq terminal_do_def carry_def idle_def
        split: option.splits)
qed

section \<open>Evaluation on the concrete environment\<close>

lemmas path_eval =
  changeDirectory_target_def startsWith_def path_isAbsolute_def path_resolve_def path_join_def
  path_normalize_def normalizeString_def slice_from_def dot_def dotdot_def str_simps

lemmas demo_eval = demo_env_def homeless_env_def demo_dirs_def demo_view_def file_start_def

section \<open>C1: the working directory of a view\<close>

text \<open>
  C1, as the code has it. The constructor does not validate: a configured startup
  directory that is not blank is assigned as configured, trimmed; only an absent
  (empty or blank) one falls back to the resolved home directory (\<^verbatim>\<open>HOME\<close>, else
  \<^verbatim>\<open>USERPROFILE\<close>, else \<^verbatim>\<open>os.homedir()\<close>). After that only \<^verbatim>\<open>cd\<close> changes the working
  directory, and it validates first: along every run of events, the working directory
  is either still the one of the constructor, or an absolute, normalized path that
  existed and was a directory in the environment of the event that last changed it.
  It is never empty, provided \<^verbatim>\<open>os.homedir()\<close> does not return the empty string.
  (\<^verbatim>\<open>process.cwd()\<close> is taken to be absolute, as it always is.)
\<close>

theorem working_directory_invariant:
  assumes "TerminalView_constructor e0 settings = Inr s0"
    and "\<forall>(e, ev) \<in> set evs. path_isAbsolute (process_cwd e)"
  shows "(trim (startupDirectory settings) \<noteq> [] \<longrightarrow> cwd s0 = trim (startupDirectory settings))
       \<and> (trim (startupDirectory settings) = [] \<longrightarrow> resolved_home e0 = Inr (cwd s0))
       \<and> (case cwd_set_by evs (onOpen s0) None of
             None \<Rightarrow> cwd (run evs (onOpen s0)) = cwd s0
           | Some e \<Rightarrow> cwd_validated e (cwd (run evs (onOpen s0))))
       \<and> (os_homedir e0 \<noteq> Inr [] \<longrightarrow> cwd (run evs (onOpen s0)) \<noteq> [])"
proof -
  note ctor = constructor_cwd[OF assms(1)]
  have open_cwd: "cwd (onOpen s0) = cwd s0"
    by (simp add: onOpen_def writePrompt_eq terminal_do_def)
  have "case (None :: env option) of
          None \<Rightarrow> cwd (onOpen s0) = cwd s0
        | Some e \<Rightarrow> cwd_validated e (cwd (onOpen s0))"
    by (simp add: open_cwd)
  with assms(2) have inv: "case cwd_set_by evs (onOpen s0) None of
             None \<Rightarrow> cwd (run evs (onOpen s0)) = cwd s0
           | Some e \<Rightarrow> cwd_validated e (cwd (run evs (onOpen s0)))"
    by (rule cwd_run)
  have "cwd (run evs (onOpen s0)) \<noteq> []" if home: "os_homedir e0 \<noteq> Inr []"
  proof -
    have "cwd s0 \<noteq> []"
      using ctor resolved_home_nonempty[OF _ home, of "cwd s0"] by auto
    with inv show ?thesis
      by (auto split: option.splits dest: validated_nonempty)
  qed
  with ctor inv show ?thesis by blast
qed

theorem working_directory_invariant_witness:
  "TerminalView_constructor demo_env \<lparr>startupDirectory = str ''  ''\<rparr> = Inr demo_view
   \<and> path_isAbsolute (process_cwd demo_env)
   \<and> resolved_home demo_env = Inr (str ''/home/u'')
   \<and> cwd (run [(demo_env, Input (str ''cd ../../tmp'')), (demo_env, Input [13])] (onOpen demo_view))
       = str ''/tmp''
   \<and> cwd_validated demo_env (str ''/tmp'')"
proof -
  let ?evs = "[(demo_env, Input (str ''cd ../../tmp'')), (demo_env, Input [13])]"
  have ctor: "TerminalView_constructor demo_env \<lparr>startupDirectory = str ''  ''\<rparr> = Inr demo_view"
    by (simp add: TerminalView_constructor_def resolved_home_def js_or_def trim_def
        is_js_whitespace_def demo_eval str_simps)
  have abs: "path_isAbsolute (process_cwd demo_env)"
    by (simp add: demo_eval path_eval)
  then have envs: "\<forall>(e, ev) \<in> set ?evs. path_isAbsolute (process_cwd e)"
    by simp
  have blank: "trim (startupDirectory \<lparr>startupDirectory = str ''  ''\<rparr>) = []"
    by (simp add: trim_def is_js_whitespace_def str_simps)
  have s1: "step demo_env (Input (str ''cd ../../tmp'')) (onOpen demo_view) =
      (onOpen demo_view)\<lparr>currentLine := str ''cd ../../tmp'',
         terminal := terminal (onOpen demo_view) @ [Write (str ''cd ../../tmp'')]\<rparr>"
    by (simp add: step_def handleInput_def charCodeAt0_def terminal_do_def str_simps)
      (simp add: onOpen_def writePrompt_eq terminal_do_def demo_view_def)
  have c: "cwd (onOpen demo_view) = str ''/home/u''"
    by (simp add: onOpen_def writePrompt_eq terminal_do_def demo_view_def)
  have t: "trim (str ''cd ../../tmp'') = str ''cd ../../tmp''"
    and tt: "trim (substring 3 (str ''cd ../../tmp'')) = str ''../../tmp''"
    and sw: "startsWith (str ''cd ../../tmp'') (str ''cd '')"
    and ne: "str ''cd ../../tmp'' \<noteq> []"
    by (simp_all add: trim_def substring_def startsWith_def is_js_whitespace_def str_simps)
  have cd: "cwd (changeDirectory demo_env (str ''../../tmp'') s) = str ''/tmp''"
    if "cwd s = str ''/home/u''" for s
    using that by (simp add: changeDirectory_cases path_eval demo_eval)
  have s2: "cwd (step demo_env (Input [13]) (step demo_env (Input (str ''cd ../../tmp'')) (onOpen demo_view)))
      = str ''/tmp''"
    unfolding s1
    by (simp add: step_def handleInput_enter charCodeAt0_def t tt sw ne executeCommand_def cd c
        terminal_do_def)
  have changed: "str ''/tmp'' \<noteq> str ''/home/u''"
    by (simp add: str_simps)
  have s1c: "cwd (step demo_env (Input (str ''cd ../../tmp'')) (onOpen demo_view)) = str ''/home/u''"
    unfolding s1 by (simp add: c)
  have by_env: "cwd_set_by ?evs (onOpen demo_view) None = Some demo_env"
    by (simp add: s2 s1c c changed)
  have run: "cwd (run ?evs (onOpen demo_view)) = str ''/tmp''"
    by (simp add: s2)
  have "case cwd_set_by ?evs (onOpen demo_view) None of
          None \<Rightarrow> cwd (run ?evs (onOpen demo_view)) = cwd demo_view
        | Some e \<Rightarrow> cwd_validated e (cwd (run ?evs (onOpen demo_view)))"
    using working_directory_invariant[OF ctor envs] by blast
  then have "cwd_validated demo_env (str ''/tmp'')"
    unfolding by_env run by simp
  moreover have "resolved_home demo_env = Inr (cwd demo_view)"
    using working_directory_invariant[OF ctor envs] blank by simp
  moreover have "cwd demo_view = str ''/home/u''"
    by (simp add: demo_view_def)
  ultimately show ?thesis
    using ctor abs run by simp
qed

text \<open>C1 as stated fails at construction: a configured directory that does not
  exist is kept and is not replaced by the home directory, and a configured relative
  path is kept although it is not absolute.\<close>

theorem invalid_startup_directory_is_kept:
  "TerminalView_constructor demo_env \<lparr>startupDirectory = str ''/missing''\<rparr> =
     Inr \<lparr>currentLine = [], cwd = str ''/missing'', terminal = [], outstanding = []\<rparr>
   \<and> \<not> existsSync demo_env (str ''/missing'')
   \<and> TerminalView_constructor demo_env \<lparr>startupDirectory = str '' notes.md''\<rparr> =
     Inr \<lparr>currentLine = [], cwd = str ''notes.md'', terminal = [], outstanding = []\<rparr>
   \<and> \<not> path_isAbsolute (str ''notes.md'')
   \<and> resolved_home demo_env = Inr (str ''/home/u'')"
  by (simp add: TerminalView_constructor_def resolved_home_def js_or_def trim_def
      is_js_whitespace_def path_isAbsolute_def demo_eval str_simps)

section \<open>C2: input while an external command is outstanding\<close>

text \<open>
  C2, as the code has it. \<open>handleInput\<close> has no guard for an execution in flight: an input
  event is handled exactly as when nothing is outstanding, the outstanding executions
  being carried along untouched. In particular a line submitted while an execution is
  outstanding is dispatched at once: when it is an external command, \<^verbatim>\<open>exec\<close> is called
  for it right away, and unless that call itself throws, a further execution is
  outstanding beside the earlier ones. The line is neither queued nor rejected.
\<close>

theorem submission_ignores_outstanding:
  "handleInput e data s = carry_outcome s (handleInput e data (idle s))
   \<and> (charCodeAt0 data = Some 13 \<and> trim (currentLine s) \<noteq> []
        \<and> \<not> startsWith (trim (currentLine s)) (str ''cd '')
        \<and> trim (currentLine s) \<noteq> str ''clear'' \<and> trim (currentLine s) \<noteq> str ''cls''
        \<and> trim (currentLine s) \<noteq> str ''pwd'' \<longrightarrow>
      handleInput e data s =
        (case exec_sync_error e
                \<lparr>req_command = trim (currentLine s), req_cwd = cwd s, req_env = process_env e\<rparr> of
           None \<Rightarrow>
             Returned (s\<lparr>currentLine := [],
               terminal := terminal s @ [Write [13, 10]],
               outstanding := outstanding s @
                 [\<lparr>req_command = trim (currentLine s), req_cwd = cwd s,
                   req_env = process_env e\<rparr>]\<rparr>)
         | Some err \<Rightarrow> Threw err (s\<lparr>terminal := terminal s @ [Write [13, 10]]\<rparr>)))"
proof (intro conjI impI)
  show "handleInput e data s = carry_outcome s (handleInput e data (idle s))"
    by (rule handleInput_carry)
next
  assume "charCodeAt0 data = Some 13 \<and> trim (currentLine s) \<noteq> []
        \<and> \<not> startsWith (trim (currentLine s)) (str ''cd '')
        \<and> trim (currentLine s) \<noteq> str ''clear'' \<and> trim (currentLine s) \<noteq> str ''cls''
        \<and> trim (currentLine s) \<noteq> str ''pwd''"
  then show "handleInput e data s =
        (case exec_sync_error e
                \<lparr>req_command = trim (currentLine s), req_cwd = cwd s, req_env = process_env e\<rparr> of
           None \<Rightarrow>
             Returned (s\<lparr>currentLine := [],
               terminal := terminal s @ [Write [13, 10]],
               outstanding := outstanding s @
                 [\<lparr>req_command = trim (currentLine s), req_cwd = cwd s,
                   req_env = process_env e\<rparr>]\<rparr>)
         | Some err \<Rightarrow> Threw err (s\<lparr>terminal := terminal s @ [Write [13, 10]]\<rparr>))"
    by (simp add: handleInput_enter executeCommand_def terminal_do_def exec_def CRLF_def
        split: option.splits)
qed

theorem submission_ignores_outstanding_witness:
  "charCodeAt0 [13] = Some 13
   \<and> map req_command (outstanding busy_view) = [str ''ls'']
   \<and> handleInput demo_env [13] busy_view =
       Returned (busy_view\<lparr>currentLine := [],
         terminal := [Write [13, 10]],
         outstanding := outstanding busy_view @
           [\<lparr>req_command = str ''ps'', req_cwd = str ''/home/u'',
             req_env = process_env demo_env\<rparr>]\<rparr>)"
proof -
  have t: "trim (currentLine busy_view) = str ''ps''"
    by (simp add: busy_view_def trim_def is_js_whitespace_def str_simps)
  have cv: "cwd busy_view = str ''/home/u''" and tv: "terminal busy_view = []"
    by (simp_all add: busy_view_def demo_view_def)
  have starts: "exec_sync_error demo_env
      \<lparr>req_command = str ''ps'', req_cwd = str ''/home/u'', req_env = process_env demo_env\<rparr> = None"
    by (simp add: demo_env_def str_simps)
  have "charCodeAt0 [13] = Some 13 \<and> trim (currentLine busy_view) \<noteq> []
        \<and> \<not> startsWith (trim (currentLine busy_view)) (str ''cd '')
        \<and> trim (currentLine busy_view) \<noteq> str ''clear''
        \<and> trim (currentLine busy_view) \<noteq> str ''cls''
        \<and> trim (currentLine busy_view) \<noteq> str ''pwd''"
    unfolding t by (simp add: charCodeAt0_def startsWith_def str_simps)
  then have "handleInput demo_env [13] busy_view =
        (case exec_sync_error demo_env
                \<lparr>req_command = trim (currentLine busy_view), req_cwd = cwd busy_view,
                  req_env = process_env demo_env\<rparr> of
           None \<Rightarrow>
             Returned (busy_view\<lparr>currentLine := [],
               terminal := terminal busy_view @ [Write [13, 10]],
               outstanding := outstanding busy_view @
                 [\<lparr>req_command = trim (currentLine busy_view), req_cwd = cwd busy_view,
                   req_env = process_env demo_env\<rparr>]\<rparr>)
         | Some err \<Rightarrow> Threw err (busy_view\<lparr>terminal := terminal busy_view @ [Write [13, 10]]\<rparr>))"
    using submission_ignores_outstanding[of demo_env "[13]" busy_view] by blast
  then have "handleInput demo_env [13] busy_view =
       Returned (busy_view\<lparr>currentLine := [],
         terminal := [Write [13, 10]],
         outstanding := outstanding busy_view @
           [\<lparr>req_command = str ''ps'', req_cwd = str ''/home/u'',
             req_env = process_env demo_env\<rparr>]\<rparr>)"
    unfolding t cv tv starts by simp
  moreover have "map req_command (outstanding busy_view) = [str ''ls'']"
    by (simp add: busy_view_def)
  ultimately show ?thesis by (simp add: charCodeAt0_def)
qed

text \<open>C2 as stated fails: with \<^verbatim>\<open>ls\<close> submitted and its callback not yet run, typing
  \<^verbatim>\<open>ps\<close> and Enter starts a second execution; both are outstanding together.\<close>

theorem second_dispatch_while_outstanding:
  "map req_command (outstanding (run
      [(demo_env, Input (str ''l'')), (demo_env, Input (str ''s'')), (demo_env, Input [13])]
      demo_view)) = [str ''ls'']
   \<and> map req_command (outstanding (run
      [(demo_env, Input (str ''l'')), (demo_env, Input (str ''s'')), (demo_env, Input [13]),
       (demo_env, Input (str ''p'')), (demo_env, Input (str ''s'')), (demo_env, Input [13])]
      demo_view)) = [str ''ls'', str ''ps'']"
  by (simp add: step_def handleInput_def charCodeAt0_def Let_def executeCommand_def exec_def
      terminal_do_def trim_def is_js_whitespace_def startsWith_def str_simps demo_view_def
      demo_env_def)

section \<open>C3: relaying the result of an external command\<close>

text \<open>
  C3. When an external execution completes, its callback writes stdout verbatim exactly
  when stdout is not empty, then stderr between \<^verbatim>\<open>ESC [31m\<close> and \<^verbatim>\<open>ESC [0m\<close> (red) exactly
  when stderr is not empty, then the message of the failure, as a line between the same
  two escape sequences, exactly when there is a failure and stderr is empty; so a line
  is written only in that case, and never together with stderr. In every case the
  prompt is written last.
\<close>

theorem exec_callback_output:
  "exec_callback err stdout stderr s =
     s\<lparr>terminal := terminal s
          @ (if stdout \<noteq> [] then [Write stdout] else [])
          @ (if stderr \<noteq> [] then [Write (27 # str ''[31m'' @ stderr @ 27 # str ''[0m'')] else [])
          @ (case err of
               None \<Rightarrow> []
             | Some (Error message) \<Rightarrow>
                 if stderr = [] then [Writeln (27 # str ''[31m'' @ message @ 27 # str ''[0m'')]
                 else [])
          @ [Write ([13, 10] @ 27 # str ''[32m'' @ cwd s @ 27 # str ''[0m $ ''),
             ScrollToBottom]\<rparr>
   \<and> 27 # str ''[31m'' @ stderr @ 27 # str ''[0m'' =
       [27, 91, 51, 49, 109] @ stderr @ [27, 91, 48, 109]
   \<and> (\<exists>line. Writeln line \<in> set (new_calls s (exec_callback err stdout stderr s)))
       = (err \<noteq> None \<and> stderr = [])
   \<and> prompt_rearmed (exec_callback err stdout stderr s)"
proof -
  have eq: "exec_callback err stdout stderr s =
     s\<lparr>terminal := terminal s
          @ (if stdout \<noteq> [] then [Write stdout] else [])
          @ (if stderr \<noteq> [] then [Write (27 # str ''[31m'' @ stderr @ 27 # str ''[0m'')] else [])
          @ (case err of
               None \<Rightarrow> []
             | Some (Error message) \<Rightarrow>
                 if stderr = [] then [Writeln (27 # str ''[31m'' @ message @ 27 # str ''[0m'')]
                 else [])
          @ [Write ([13, 10] @ 27 # str ''[32m'' @ cwd s @ 27 # str ''[0m $ ''),
             ScrollToBottom]\<rparr>"
    by (cases err; cases "the err")
      (simp_all add: exec_callback_def writePrompt_eq terminal_do_def red_def prompt_text_def
        green_def CRLF_def str_simps)
  have bytes: "27 # str ''[31m'' @ stderr @ 27 # str ''[0m'' =
       [27, 91, 51, 49, 109] @ stderr @ [27, 91, 48, 109]"
    by (simp add: str_simps)
  have "(\<exists>line. Writeln line \<in> set (new_calls s (exec_callback err stdout stderr s)))
       = (err \<noteq> None \<and> stderr = [])"
    unfolding eq by (cases err; cases "the err") (auto simp: new_calls_def)
  moreover have "prompt_rearmed (exec_callback err stdout stderr s)"
    unfolding eq by (simp add: prompt_rearmed_def prompt_text_def green_def CRLF_def str_simps)
  ultimately show ?thesis using eq bytes by simp
qed

section \<open>C4: a cd that fails\<close>

text \<open>
  C4. When the resolved target of \<^verbatim>\<open>cd\<close> does not exist or is not a directory, the working
  directory is unchanged and exactly one line is written, the (red) error line
  \<^verbatim>\<open>cd: no such file or directory: \<close> followed by the target as it was given. When the
  resolution raises an exception (\<^verbatim>\<open>os.homedir()\<close> or \<^verbatim>\<open>statSync\<close> throws), it is caught,
  \<^verbatim>\<open>cd: \<close> followed by its message is written, and the working directory is unchanged as
  well. Every branch, the successful one included, ends with the prompt.
\<close>

theorem cd_failure:
  "(changeDirectory_target e (cwd s) newPath = Inr targetPath
      \<and> (\<not> existsSync e targetPath \<or> statSync_isDirectory e targetPath = Inr False) \<longrightarrow>
    changeDirectory e newPath s =
      s\<lparr>terminal := terminal s @
           [Writeln (red (str ''cd: no such file or directory: '' @ newPath)),
            Write (prompt_text True (cwd s)), ScrollToBottom]\<rparr>)
   \<and> (changeDirectory_target e (cwd s) newPath = Inl (Error message)
        \<or> (changeDirectory_target e (cwd s) newPath = Inr targetPath \<and> existsSync e targetPath
            \<and> statSync_isDirectory e targetPath = Inl (Error message)) \<longrightarrow>
      changeDirectory e newPath s =
        s\<lparr>terminal := terminal s @
             [Writeln (red (str ''cd: '' @ message)), Write (prompt_text True (cwd s)),
              ScrollToBottom]\<rparr>)
   \<and> prompt_rearmed (changeDirectory e newPath s)"
  by (auto simp: changeDirectory_cases prompt_rearmed_def split: sum.splits error.splits)

theorem cd_failure_witness:
  "changeDirectory demo_env (str ''/nope'') demo_view =
     demo_view\<lparr>terminal :=
       [Writeln (red (str ''cd: no such file or directory: '' @ str ''/nope'')),
        Write (prompt_text True (str ''/home/u'')), ScrollToBottom]\<rparr>
   \<and> changeDirectory demo_env (str ''notes.md'') demo_view =
     demo_view\<lparr>terminal :=
       [Writeln (red (str ''cd: no such file or directory: '' @ str ''notes.md'')),
        Write (prompt_text True (str ''/home/u'')), ScrollToBottom]\<rparr>
   \<and> changeDirectory demo_env (str ''/root'') demo_view =
     demo_view\<lparr>terminal :=
       [Writeln (red (str ''cd: '' @ str ''EACCES: permission denied'')),
        Write (prompt_text True (str ''/home/u'')), ScrollToBottom]\<rparr>
   \<and> changeDirectory homeless_env (str ''~'') demo_view =
     demo_view\<lparr>terminal :=
       [Writeln (red (str ''cd: '' @ str ''ENOENT: no home directory'')),
        Write (prompt_text True (str ''/home/u'')), ScrollToBottom]\<rparr>
   \<and> prompt_rearmed (changeDirectory demo_env (str ''/tmp'') demo_view)"
proof -
  have tv: "terminal demo_view = []" and cv: "cwd demo_view = str ''/home/u''"
    by (simp_all add: demo_view_def)
  have missing: "changeDirectory_target demo_env (cwd demo_view) (str ''/nope'') = Inr (str ''/nope'')
      \<and> (\<not> existsSync demo_env (str ''/nope'')
          \<or> statSync_isDirectory demo_env (str ''/nope'') = Inr False)"
    by (simp add: path_eval demo_eval)
  have notdir: "changeDirectory_target demo_env (cwd demo_view) (str ''notes.md'') =
        Inr (str ''/home/u/notes.md'')
      \<and> (\<not> existsSync demo_env (str ''/home/u/notes.md'')
          \<or> statSync_isDirectory demo_env (str ''/home/u/notes.md'') = Inr False)"
    by (simp add: path_eval demo_eval)
  have denied: "changeDirectory_target demo_env (cwd demo_view) (str ''/root'') =
        Inl (Error (str ''EACCES: permission denied''))
      \<or> (changeDirectory_target demo_env (cwd demo_view) (str ''/root'') = Inr (str ''/root'')
          \<and> existsSync demo_env (str ''/root'')
          \<and> statSync_isDirectory demo_env (str ''/root'') =
              Inl (Error (str ''EACCES: permission denied'')))"
    by (simp add: path_eval demo_eval)
  have homeless: "changeDirectory_target homeless_env (cwd demo_view) (str ''~'') =
        Inl (Error (str ''ENOENT: no home directory''))
      \<or> (changeDirectory_target homeless_env (cwd demo_view) (str ''~'') = Inr []
          \<and> existsSync homeless_env []
          \<and> statSync_isDirectory homeless_env [] =
              Inl (Error (str ''ENOENT: no home directory'')))"
    by (simp add: path_eval demo_eval)
  have c1: "changeDirectory demo_env (str ''/nope'') demo_view =
      demo_view\<lparr>terminal := terminal demo_view @
        [Writeln (red (str ''cd: no such file or directory: '' @ str ''/nope'')),
         Write (prompt_text True (cwd demo_view)), ScrollToBottom]\<rparr>"
    using cd_failure[where e = demo_env and s = demo_view and newPath = "str ''/nope''"
        and targetPath = "str ''/nope''"] missing
    by blast
  have c2: "changeDirectory demo_env (str ''notes.md'') demo_view =
      demo_view\<lparr>terminal := terminal demo_view @
        [Writeln (red (str ''cd: no such file or directory: '' @ str ''notes.md'')),
         Write (prompt_text True (cwd demo_view)), ScrollToBottom]\<rparr>"
    using cd_failure[where e = demo_env and s = demo_view and newPath = "str ''notes.md''"
        and targetPath = "str ''/home/u/notes.md''"] notdir
    by blast
  have c3: "changeDirectory demo_env (str ''/root'') demo_view =
      demo_view\<lparr>terminal := terminal demo_view @
        [Writeln (red (str ''cd: '' @ str ''EACCES: permission denied'')),
         Write (prompt_text True (cwd demo_view)), ScrollToBottom]\<rparr>"
    using cd_failure[where e = demo_env and s = demo_view and newPath = "str ''/root''"
        and targetPath = "str ''/root''" and message = "str ''EACCES: permission denied''"] denied
    by blast
  have c4: "changeDirectory homeless_env (str ''~'') demo_view =
      demo_view\<lparr>terminal := terminal demo_view @
        [Writeln (red (str ''cd: '' @ str ''ENOENT: no home directory'')),
         Write (prompt_text True (cwd demo_view)), ScrollToBottom]\<rparr>"
    using cd_failure[where e = homeless_env and s = demo_view and newPath = "str ''~''"
        and targetPath = "[]" and message = "str ''ENOENT: no home directory''"] homeless
    by blast
  have c5: "prompt_rearmed (changeDirectory demo_env (str ''/tmp'') demo_view)"
    using cd_failure[where e = demo_env and s = demo_view and newPath = "str ''/tmp''"]
    by blast
  show ?thesis
    unfolding c1 c2 c3 c4 using c5 by (simp add: tv cv)
qed

section \<open>C5: resolving the target of cd\<close>

text \<open>
  C5. The target path of \<^verbatim>\<open>cd\<close>: \<^verbatim>\<open>~\<close> alone is the home directory; a target beginning
  with \<^verbatim>\<open>~/\<close> is the home directory joined with what follows; any other target that is
  not absolute is joined with the current working directory; an absolute target is
  taken as it is. The result goes through \<^verbatim>\<open>path.resolve\<close>, which makes it absolute and
  normalizes it segment by segment (no empty, \<^verbatim>\<open>'.'\<close> or \<^verbatim>\<open>'..'\<close> segment remains) without
  consulting the file system, so no symbolic link is resolved. Only then is the path
  checked for existence and for being a directory, and assigned if the check succeeds.
\<close>

theorem cd_target_resolution:
  "(os_homedir e = Inr home \<longrightarrow>
      changeDirectory_target e dir (str ''~'') = Inr (path_resolve e home))
   \<and> (os_homedir e = Inr home \<and> startsWith newPath (str ''~/'') \<longrightarrow>
      changeDirectory_target e dir newPath =
        Inr (path_resolve e (path_join home (slice_from 2 newPath))))
   \<and> (newPath \<noteq> str ''~'' \<and> \<not> startsWith newPath (str ''~/'') \<and> \<not> path_isAbsolute newPath \<longrightarrow>
      changeDirectory_target e dir newPath = Inr (path_resolve e (path_join dir newPath)))
   \<and> (path_isAbsolute newPath \<longrightarrow>
      changeDirectory_target e dir newPath = Inr (path_resolve e newPath))
   \<and> (path_isAbsolute (process_cwd e) \<and> changeDirectory_target e dir newPath = Inr targetPath \<longrightarrow>
      is_normalized_absolute targetPath)
   \<and> changeDirectory_target (e\<lparr>existsSync := ex, statSync_isDirectory := st\<rparr>) dir newPath =
       changeDirectory_target e dir newPath
   \<and> (changeDirectory_target e (cwd s) newPath = Inr targetPath \<longrightarrow>
      cwd (changeDirectory e newPath s) =
        (if existsSync e targetPath \<and> statSync_isDirectory e targetPath = Inr True
         then targetPath else cwd s))"
proof (intro conjI impI)
  show "changeDirectory_target (e\<lparr>existsSync := ex, statSync_isDirectory := st\<rparr>) dir newPath =
       changeDirectory_target e dir newPath"
    by (auto simp: changeDirectory_target_def path_resolve_fs split: sum.splits)
next
  assume "path_isAbsolute newPath"
  then show "changeDirectory_target e dir newPath = Inr (path_resolve e newPath)"
    using tilde_not_absolute[of newPath] by (simp add: changeDirectory_target_def)
next
  assume "path_isAbsolute (process_cwd e) \<and> changeDirectory_target e dir newPath = Inr targetPath"
  then show "is_normalized_absolute targetPath"
    by (blast intro: changeDirectory_target_normalized)
next
  assume "changeDirectory_target e (cwd s) newPath = Inr targetPath"
  then show "cwd (changeDirectory e newPath s) =
        (if existsSync e targetPath \<and> statSync_isDirectory e targetPath = Inr True
         then targetPath else cwd s)"
    by (auto simp: changeDirectory_cases split: sum.splits error.splits)
qed (auto simp: changeDirectory_target_def startsWith_def str_simps)

theorem cd_target_resolution_witness:
  "changeDirectory_target demo_env (str ''/home/u'') (str ''~'') = Inr (str ''/home/u'')
   \<and> changeDirectory_target demo_env (str ''/tmp'') (str ''~/../x/./y'') = Inr (str ''/home/x/y'')
   \<and> changeDirectory_target demo_env (str ''/home/u'') (str ''a/../../b/'') = Inr (str ''/home/b'')
   \<and> changeDirectory_target demo_env (str ''/home/u'') (str ''/tmp/../etc/.'') = Inr (str ''/etc'')
   \<and> is_normalized_absolute (str ''/home/b'')
   \<and> cwd (changeDirectory demo_env (str ''../../tmp/.'') demo_view) = str ''/tmp''"
proof -
  have home: "os_homedir demo_env = Inr (str ''/home/u'')"
    by (simp add: demo_eval)
  have abs: "path_isAbsolute (process_cwd demo_env)"
    by (simp add: demo_eval path_eval)
  have c1: "changeDirectory_target demo_env (str ''/home/u'') (str ''~'') =
      Inr (path_resolve demo_env (str ''/home/u''))"
    using cd_target_resolution[where e = demo_env and home = "str ''/home/u''"] home by blast
  have "startsWith (str ''~/../x/./y'') (str ''~/'')"
    by (simp add: startsWith_def str_simps)
  then have c2: "changeDirectory_target demo_env (str ''/tmp'') (str ''~/../x/./y'') =
      Inr (path_resolve demo_env (path_join (str ''/home/u'') (slice_from 2 (str ''~/../x/./y''))))"
    using cd_target_resolution[where e = demo_env and home = "str ''/home/u''"
        and newPath = "str ''~/../x/./y''"] home by blast
  have "str ''a/../../b/'' \<noteq> str ''~'' \<and> \<not> startsWith (str ''a/../../b/'') (str ''~/'')
      \<and> \<not> path_isAbsolute (str ''a/../../b/'')"
    by (simp add: startsWith_def path_isAbsolute_def str_simps)
  then have c3: "changeDirectory_target demo_env (str ''/home/u'') (str ''a/../../b/'') =
      Inr (path_resolve demo_env (path_join (str ''/home/u'') (str ''a/../../b/'')))"
    using cd_target_resolution[where e = demo_env and newPath = "str ''a/../../b/''"] by blast
  have "path_isAbsolute (str ''/tmp/../etc/.'')"
    by (simp add: path_isAbsolute_def str_simps)
  then have c4: "changeDirectory_target demo_env (str ''/home/u'') (str ''/tmp/../etc/.'') =
      Inr (path_resolve demo_env (str ''/tmp/../etc/.''))"
    using cd_target_resolution[where e = demo_env and newPath = "str ''/tmp/../etc/.''"] by blast
  have r1: "path_resolve demo_env (str ''/home/u'') = str ''/home/u''"
    and r2: "path_resolve demo_env (path_join (str ''/home/u'') (slice_from 2 (str ''~/../x/./y'')))
        = str ''/home/x/y''"
    and r3: "path_resolve demo_env (path_join (str ''/home/u'') (str ''a/../../b/'')) = str ''/home/b''"
    and r4: "path_resolve demo_env (str ''/tmp/../etc/.'') = str ''/etc''"
    by (simp_all add: path_eval demo_eval)
  have c5: "is_normalized_absolute (str ''/home/b'')"
    using cd_target_resolution[where e = demo_env and newPath = "str ''a/../../b/''"
        and dir = "str ''/home/u''" and targetPath = "str ''/home/b''"] abs c3 r3
    by simp
  have t6: "changeDirectory_target demo_env (cwd demo_view) (str ''../../tmp/.'') = Inr (str ''/tmp'')"
    by (simp add: path_eval demo_eval)
  have ok: "existsSync demo_env (str ''/tmp'') \<and> statSync_isDirectory demo_env (str ''/tmp'') = Inr True"
    by (simp add: demo_eval str_simps)
  have c6: "cwd (changeDirectory demo_env (str ''../../tmp/.'') demo_view) = str ''/tmp''"
    using cd_target_resolution[where e = demo_env and newPath = "str ''../../tmp/.''"
        and s = demo_view and targetPath = "str ''/tmp''"] t6 ok
    by simp
  show ?thesis
    unfolding c1 c2 c3 c4 r1 r2 r3 r4 using c5 c6 by simp
qed

section \<open>C6: the order of dispatch\<close>

text \<open>
  C6. \<open>executeCommand\<close> tests, in this order and with the first match winning: the
  prefix \<^verbatim>\<open>'cd '\<close> (case-sensitive), which calls \<open>changeDirectory\<close> on the trimmed
  remainder; equality with \<^verbatim>\<open>clear\<close> or \<^verbatim>\<open>cls\<close>, which clears the terminal and writes the
  prompt without a line break; equality with \<^verbatim>\<open>pwd\<close>, which writes the working directory
  as a line; any other command is passed to \<^verbatim>\<open>exec\<close> with the view's working directory
  and the environment of the process. That call starts the execution, unless it throws:
  then the exception leaves \<open>executeCommand\<close> and the view is untouched.
\<close>

theorem executeCommand_priority:
  "(startsWith command (str ''cd '') \<longrightarrow>
      executeCommand e command s =
        Returned (changeDirectory e (trim (substring 3 command)) s))
   \<and> (command = str ''clear'' \<or> command = str ''cls'' \<longrightarrow>
      executeCommand e command s =
        Returned (s\<lparr>terminal := terminal s @
             [Clear, Write (prompt_text False (cwd s)), SetTimeout_scrollToTop 10]\<rparr>))
   \<and> (command = str ''pwd'' \<longrightarrow>
      executeCommand e command s =
        Returned (s\<lparr>terminal := terminal s @
             [Writeln (cwd s), Write (prompt_text True (cwd s)), ScrollToBottom]\<rparr>))
   \<and> (\<not> startsWith command (str ''cd '') \<and> command \<noteq> str ''clear'' \<and> command \<noteq> str ''cls''
        \<and> command \<noteq> str ''pwd'' \<longrightarrow>
      executeCommand e command s =
        (case exec_sync_error e
                \<lparr>req_command = command, req_cwd = cwd s, req_env = process_env e\<rparr> of
           None \<Rightarrow>
             Returned (s\<lparr>outstanding := outstanding s @
               [\<lparr>req_command = command, req_cwd = cwd s, req_env = process_env e\<rparr>]\<rparr>)
         | Some err \<Rightarrow> Threw err s))"
  by (auto simp: executeCommand_def startsWith_def str_simps exec_def writePrompt_eq terminal_do_def
      split: option.splits)

theorem executeCommand_priority_witness:
  "executeCommand demo_env (str ''cd /tmp'') demo_view =
     Returned (changeDirectory demo_env (str ''/tmp'') demo_view)
   \<and> executeCommand demo_env (str ''cls'') demo_view =
       Returned (demo_view\<lparr>terminal :=
         [Clear, Write (prompt_text False (str ''/home/u'')), SetTimeout_scrollToTop 10]\<rparr>)
   \<and> executeCommand demo_env (str ''pwd'') demo_view =
       Returned (demo_view\<lparr>terminal :=
         [Writeln (str ''/home/u''), Write (prompt_text True (str ''/home/u'')), ScrollToBottom]\<rparr>)
   \<and> executeCommand demo_env (str ''CD /tmp'') demo_view =
       Returned (demo_view\<lparr>outstanding :=
         [\<lparr>req_command = str ''CD /tmp'', req_cwd = str ''/home/u'',
           req_env = process_env demo_env\<rparr>]\<rparr>)
   \<and> executeCommand demo_env (str ''ls'') file_view =
       Threw (Error (str ''spawn ENOTDIR'')) file_view"
proof -
  have tv: "terminal demo_view = []" and cv: "cwd demo_view = str ''/home/u''"
    and ov: "outstanding demo_view = []" and cf: "cwd file_view = str ''/home/u/notes.md''"
    by (simp_all add: demo_view_def file_view_def)
  have "startsWith (str ''cd /tmp'') (str ''cd '')"
    by (simp add: startsWith_def str_simps)
  then have "executeCommand demo_env (str ''cd /tmp'') demo_view =
      Returned (changeDirectory demo_env (trim (substring 3 (str ''cd /tmp''))) demo_view)"
    using executeCommand_priority[of "str ''cd /tmp''" demo_env demo_view] by blast
  moreover have "trim (substring 3 (str ''cd /tmp'')) = str ''/tmp''"
    by (simp add: trim_def substring_def str_simps is_js_whitespace_def)
  moreover have "executeCommand demo_env (str ''cls'') demo_view =
       Returned (demo_view\<lparr>terminal :=
         [Clear, Write (prompt_text False (str ''/home/u'')), SetTimeout_scrollToTop 10]\<rparr>)"
    using executeCommand_priority[of "str ''cls''" demo_env demo_view]
    by (simp add: tv cv)
  moreover have "executeCommand demo_env (str ''pwd'') demo_view =
       Returned (demo_view\<lparr>terminal :=
         [Writeln (str ''/home/u''), Write (prompt_text True (str ''/home/u'')), ScrollToBottom]\<rparr>)"
    using executeCommand_priority[of "str ''pwd''" demo_env demo_view]
    by (simp add: tv cv)
  moreover have "executeCommand demo_env (str ''CD /tmp'') demo_view =
       Returned (demo_view\<lparr>outstanding :=
         [\<lparr>req_command = str ''CD /tmp'', req_cwd = str ''/home/u'',
           req_env = process_env demo_env\<rparr>]\<rparr>)"
  proof -
    have other: "\<not> startsWith (str ''CD /tmp'') (str ''cd '') \<and> str ''CD /tmp'' \<noteq> str ''clear''
        \<and> str ''CD /tmp'' \<noteq> str ''cls'' \<and> str ''CD /tmp'' \<noteq> str ''pwd''"
      by (simp add: startsWith_def str_simps)
    have starts: "exec_sync_error demo_env
        \<lparr>req_command = str ''CD /tmp'', req_cwd = str ''/home/u'',
          req_env = process_env demo_env\<rparr> = None"
      by (simp add: demo_env_def str_simps)
    from executeCommand_priority[of "str ''CD /tmp''" demo_env demo_view] other
    have "executeCommand demo_env (str ''CD /tmp'') demo_view =
        (case exec_sync_error demo_env
                \<lparr>req_command = str ''CD /tmp'', req_cwd = cwd demo_view,
                  req_env = process_env demo_env\<rparr> of
           None \<Rightarrow>
             Returned (demo_view\<lparr>outstanding := outstanding demo_view @
               [\<lparr>req_command = str ''CD /tmp'', req_cwd = cwd demo_view,
                 req_env = process_env demo_env\<rparr>]\<rparr>)
         | Some err \<Rightarrow> Threw err demo_view)"
      by blast
    then show ?thesis
      unfolding cv ov starts by simp
  qed
  moreover have "executeCommand demo_env (str ''ls'') file_view =
       Threw (Error (str ''spawn ENOTDIR'')) file_view"
  proof -
    have other: "\<not> startsWith (str ''ls'') (str ''cd '') \<and> str ''ls'' \<noteq> str ''clear''
        \<and> str ''ls'' \<noteq> str ''cls'' \<and> str ''ls'' \<noteq> str ''pwd''"
      by (simp add: startsWith_def str_simps)
    have throws: "exec_sync_error demo_env
        \<lparr>req_command = str ''ls'', req_cwd = str ''/home/u/notes.md'',
          req_env = process_env demo_env\<rparr> = Some (Error (str ''spawn ENOTDIR''))"
      by (simp add: demo_env_def str_simps)
    from executeCommand_priority[of "str ''ls''" demo_env file_view] other
    have "executeCommand demo_env (str ''ls'') file_view =
        (case exec_sync_error demo_env
                \<lparr>req_command = str ''ls'', req_cwd = cwd file_view,
                  req_env = process_env demo_env\<rparr> of
           None \<Rightarrow>
             Returned (file_view\<lparr>outstanding := outstanding file_view @
               [\<lparr>req_command = str ''ls'', req_cwd = cwd file_view,
                 req_env = process_env demo_env\<rparr>]\<rparr>)
         | Some err \<Rightarrow> Threw err file_view)"
      by blast
    then show ?thesis
      unfolding cf throws by simp
  qed
  ultimately show ?thesis by simp
qed

section \<open>C7: pwd and the bytes of the prompt\<close>

text \<open>
  C7. The command \<^verbatim>\<open>pwd\<close> writes the working directory as one line (\<^verbatim>\<open>writeln\<close>) and then
  the prompt, and nothing else. The prompt is the working directory between the escape
  sequences \<^verbatim>\<open>ESC [32m\<close> and \<^verbatim>\<open>ESC [0m\<close>, followed by \<^verbatim>\<open>' $ '\<close>; as after every command
  but \<^verbatim>\<open>clear\<close>, \<open>writePrompt\<close> puts a CR LF in front of it.
\<close>

theorem pwd_output:
  "executeCommand e (str ''pwd'') s =
     Returned (s\<lparr>terminal := terminal s @
          [Writeln (cwd s),
           Write (CRLF @ 27 # str ''[32m'' @ cwd s @ 27 # str ''[0m $ ''),
           ScrollToBottom]\<rparr>)
   \<and> prompt_text True (cwd s) = CRLF @ 27 # str ''[32m'' @ cwd s @ 27 # str ''[0m $ ''
   \<and> prompt_text False (cwd s) = 27 # str ''[32m'' @ cwd s @ 27 # str ''[0m $ ''"
  by (simp add: executeCommand_def startsWith_def str_simps writePrompt_eq terminal_do_def
      prompt_text_def green_def)

section \<open>C8: the Enter key\<close>

text \<open>
  C8 says that every Enter with a non-blank pending line submits the trimmed line and
  clears the pending line. \<open>handleInput\<close> clears the line in the statement after the
  call of \<open>executeCommand\<close>, and nothing catches an exception of \<^verbatim>\<open>exec\<close>; when that call
  throws, the statement is never reached. Here the startup directory is the regular
  file \<^verbatim>\<open>/home/u/notes.md\<close>, which the constructor accepts; the user types \<^verbatim>\<open>ls\<close> and
  Enter. CR LF (13, 10) is written, \<^verbatim>\<open>exec\<close> throws \<^verbatim>\<open>spawn ENOTDIR\<close>, and the view is
  left with \<^verbatim>\<open>ls\<close> still pending and without a prompt.
\<close>

theorem enter_key_exec_throws:
  "TerminalView_constructor demo_env \<lparr>startupDirectory = str ''/home/u/notes.md''\<rparr> =
     Inr file_start
   \<and> run [(demo_env, Input (str ''l'')), (demo_env, Input (str ''s''))] (onOpen file_start) =
       file_view
   \<and> trim (currentLine file_view) = str ''ls''
   \<and> handleInput demo_env [13] file_view =
       Threw (Error (str ''spawn ENOTDIR''))
         (file_view\<lparr>terminal := terminal file_view @ [Write [13, 10]]\<rparr>)
   \<and> currentLine (step demo_env (Input [13]) file_view) = str ''ls''
   \<and> new_calls file_view (step demo_env (Input [13]) file_view) = [Write [13, 10]]"
proof -
  have ctor: "TerminalView_constructor demo_env \<lparr>startupDirectory = str ''/home/u/notes.md''\<rparr> =
      Inr file_start"
    by (simp add: TerminalView_constructor_def trim_def is_js_whitespace_def file_start_def
        str_simps)
  have typed: "run [(demo_env, Input (str ''l'')), (demo_env, Input (str ''s''))]
      (onOpen file_start) = file_view"
    by (simp add: step_def handleInput_def charCodeAt0_def onOpen_def writePrompt_eq
        terminal_do_def file_start_def file_view_def str_simps)
  have line: "trim (currentLine file_view) = str ''ls''"
    by (simp add: file_view_def trim_def is_js_whitespace_def str_simps)
  have other: "str ''ls'' \<noteq> [] \<and> \<not> startsWith (str ''ls'') (str ''cd '')
      \<and> str ''ls'' \<noteq> str ''clear'' \<and> str ''ls'' \<noteq> str ''cls'' \<and> str ''ls'' \<noteq> str ''pwd''"
    by (simp add: startsWith_def str_simps)
  have throws: "exec_sync_error demo_env
      \<lparr>req_command = str ''ls'', req_cwd = cwd file_view, req_env = process_env demo_env\<rparr> =
        Some (Error (str ''spawn ENOTDIR''))"
    by (simp add: demo_env_def file_view_def str_simps)
  have enter: "handleInput demo_env [13] file_view =
       Threw (Error (str ''spawn ENOTDIR''))
         (file_view\<lparr>terminal := terminal file_view @ [Write [13, 10]]\<rparr>)"
    using other
    by (simp add: handleInput_enter charCodeAt0_def line executeCommand_def exec_def throws
        terminal_do_def CRLF_def)
  have "currentLine (step demo_env (Input [13]) file_view) = str ''ls''"
    unfolding step_def by (simp add: enter) (simp add: file_view_def)
  moreover have "new_calls file_view (step demo_env (Input [13]) file_view) = [Write [13, 10]]"
    unfolding step_def by (simp add: enter new_calls_def)
  ultimately show ?thesis
    using ctor typed line enter by simp
qed

section \<open>C9: the bare command cd\<close>

text \<open>
  C9. The command \<^verbatim>\<open>cd\<close> with nothing after it matches no built-in: it does not begin with
  \<^verbatim>\<open>'cd '\<close> and is none of \<^verbatim>\<open>clear\<close>, \<^verbatim>\<open>cls\<close>, \<^verbatim>\<open>pwd\<close>. It is handed to \<^verbatim>\<open>exec\<close> with the
  working directory and the environment: if that call throws, the exception leaves
  \<open>executeCommand\<close> with the view untouched, otherwise the execution is outstanding. In
  neither case does the built-in \<^verbatim>\<open>cd\<close> run: the working directory stays, and nothing
  (no error line, no prompt) is written.
\<close>

theorem bare_cd_is_external:
  "\<not> startsWith (str ''cd'') (str ''cd '')
   \<and> str ''cd'' \<noteq> str ''clear'' \<and> str ''cd'' \<noteq> str ''cls'' \<and> str ''cd'' \<noteq> str ''pwd''
   \<and> executeCommand e (str ''cd'') s =
       (case exec_sync_error e
               \<lparr>req_command = str ''cd'', req_cwd = cwd s, req_env = process_env e\<rparr> of
          None \<Rightarrow>
            Returned (s\<lparr>outstanding := outstanding s @
              [\<lparr>req_command = str ''cd'', req_cwd = cwd s, req_env = process_env e\<rparr>]\<rparr>)
        | Some err \<Rightarrow> Threw err s)
   \<and> cwd (state_of (executeCommand e (str ''cd'') s)) = cwd s
   \<and> terminal (state_of (executeCommand e (str ''cd'') s)) = terminal s"
  by (simp add: executeCommand_def startsWith_def str_simps exec_def split: option.splits)

section \<open>C10: the target of cd is never empty\<close>

text \<open>
  C10. A command comes from \<open>handleInput\<close> trimmed. When such a command begins with
  \<^verbatim>\<open>'cd '\<close>, what follows the prefix is not blank, so \<open>changeDirectory\<close> is called with a
  target that is not empty: the empty target cannot be reached by submitting a line.
\<close>

theorem cd_target_never_empty:
  assumes "charCodeAt0 data = Some 13"
    and "startsWith (trim (currentLine s)) (str ''cd '')"
  shows "trim (substring 3 (trim (currentLine s))) \<noteq> []
       \<and> handleInput e data s =
           Returned ((changeDirectory e (trim (substring 3 (trim (currentLine s))))
              (terminal_do (Write CRLF) s))\<lparr>currentLine := []\<rparr>)"
proof -
  from assms(2) have "trim (currentLine s) \<noteq> []"
    by (auto simp: startsWith_def str_simps)
  with assms show ?thesis
    by (simp add: cd_remainder_not_blank handleInput_enter executeCommand_def)
qed

theorem cd_target_never_empty_witness:
  "charCodeAt0 [13] = Some 13
   \<and> startsWith (trim (str '' cd  /tmp '')) (str ''cd '')
   \<and> trim (substring 3 (trim (str '' cd  /tmp ''))) = str ''/tmp''
   \<and> cwd (state_of (handleInput demo_env [13] (demo_view\<lparr>currentLine := str '' cd  /tmp ''\<rparr>)))
       = str ''/tmp''"
proof -
  have enter: "charCodeAt0 [13] = Some 13"
    by (simp add: charCodeAt0_def)
  have t: "trim (str '' cd  /tmp '') = str ''cd  /tmp''"
    by (simp add: trim_def str_simps is_js_whitespace_def)
  have "startsWith (str ''cd  /tmp'') (str ''cd '')"
    by (simp add: startsWith_def str_simps)
  then have pre:
    "startsWith (trim (currentLine (demo_view\<lparr>currentLine := str '' cd  /tmp ''\<rparr>))) (str ''cd '')"
    by (simp add: t)
  have tgt: "trim (substring 3 (str ''cd  /tmp'')) = str ''/tmp''"
    by (simp add: trim_def substring_def str_simps is_js_whitespace_def)
  have "cwd (changeDirectory demo_env (str ''/tmp'') s) = str ''/tmp''" for s
    by (simp add: changeDirectory_cases path_eval demo_eval)
  with cd_target_never_empty[OF enter pre, of demo_env] enter pre
  show ?thesis
    by (simp add: t tgt)
qed

end
